theory Spec2Isabelle
  imports Main "HOL-Library.AList" "HOL-Library.Multiset" "HOL-Library.Sublist"
begin

section \<open>JavaScript values used by the routes\<close>

text \<open>
  The routes are TypeScript on Node/Express/Mongoose.  A field that may be \<^verbatim>\<open>undefined\<close>
  is an \<open>option\<close>; a \<^verbatim>\<open>Date\<close> is its millisecond value (what \<^verbatim>\<open><\<close> compares); a Mongo
  \<^verbatim>\<open>ObjectId\<close> is an opaque number.
\<close>

type_synonym oid = nat
type_synonym instant = int

text \<open>
  \<^verbatim>\<open>x || d\<close> for a string-or-undefined \<open>x\<close> and a string \<open>d\<close>: \<^verbatim>\<open>undefined\<close> and the empty
  string are falsy.  \<^verbatim>\<open>if (x)\<close> is \<open>truthy x\<close>.
\<close>

definition js_or :: "string option \<Rightarrow> string \<Rightarrow> string" where
  "js_or x d = (case x of None \<Rightarrow> d | Some s \<Rightarrow> if s = [] then d else s)"

definition truthy :: "string option \<Rightarrow> bool" where
  "truthy x = (case x of None \<Rightarrow> False | Some s \<Rightarrow> s \<noteq> [])"

text \<open>
  An optional string path of a stored document or of a JSON body is \<^verbatim>\<open>undefined\<close> (the
  key is missing), \<^verbatim>\<open>null\<close>, or a string.  \<^verbatim>\<open>||\<close> and the schema's \<^verbatim>\<open>required\<close> treat the
  first two alike; a \<^verbatim>\<open>Set\<close> does not.
\<close>

datatype opt_string = Absent | Null | Str string

fun definite :: "opt_string \<Rightarrow> string option" where
  "definite (Str s) = Some s"
| "definite Absent = None"
| "definite Null = None"

definition of_undefined :: "string option \<Rightarrow> opt_string" where
  "of_undefined x = (case x of None \<Rightarrow> Absent | Some s \<Rightarrow> Str s)"

text \<open>
  A value handed to \<^verbatim>\<open>Model.create\<close> on a String path, as an untyped request body can
  hold it: missing, \<^verbatim>\<open>null\<close>, a string (a number or a boolean is cast to its string form
  and counts as that string), or an object or array, which the String cast rejects.
\<close>

datatype json_field = JAbsent | JNull | JString string | JOther

text \<open>The String cast: the stored value, or \<open>None\<close> when the cast fails.\<close>

fun cast_string :: "json_field \<Rightarrow> opt_string option" where
  "cast_string JAbsent = Some Absent"
| "cast_string JNull = Some Null"
| "cast_string (JString s) = Some (Str s)"
| "cast_string JOther = None"

definition json_of_undefined :: "string option \<Rightarrow> json_field" where
  "json_of_undefined x = (case x of None \<Rightarrow> JAbsent | Some s \<Rightarrow> JString s)"

text \<open>
  The accumulator of every \<^verbatim>\<open>reduce\<close> in the statistics code is a plain object literal
  \<^verbatim>\<open>{}\<close> whose values are written by \<^verbatim>\<open>acc[k] = (acc[k] || 0) + 1\<close>.  Its own properties
  are kept as an association list in insertion order (JavaScript enumerates integer-like
  keys first; no statement below depends on the order of the keys).  A plain object
  inherits the properties of \<^verbatim>\<open>Object.prototype\<close>, so reading a key that is not an own
  property gives \<^verbatim>\<open>undefined\<close> only when the key is not one of the inherited names.  A
  value is a count or, after \<^verbatim>\<open>+ 1\<close> on something that is not a number, a string.
\<close>

datatype jsval = JNum nat | JStr string

type_synonym jsobj = "(string \<times> jsval) list"

datatype jsread = Own jsval | InheritedFunction string | InheritedObject | Undefined

text \<open>The function-valued properties of \<^verbatim>\<open>Object.prototype\<close>, each with the function's name.\<close>

definition Object_prototype_functions :: "(string \<times> string) list" where
  "Object_prototype_functions =
     [(''constructor'', ''Object''),
      (''__defineGetter__'', ''__defineGetter__''),
      (''__defineSetter__'', ''__defineSetter__''),
      (''hasOwnProperty'', ''hasOwnProperty''),
      (''__lookupGetter__'', ''__lookupGetter__''),
      (''__lookupSetter__'', ''__lookupSetter__''),
      (''isPrototypeOf'', ''isPrototypeOf''),
      (''propertyIsEnumerable'', ''propertyIsEnumerable''),
      (''toString'', ''toString''),
      (''valueOf'', ''valueOf''),
      (''toLocaleString'', ''toLocaleString'')]"

text \<open>Every property name a plain object inherits (the accessor \<^verbatim>\<open>__proto__\<close> included).\<close>

definition inherited_names :: "string list" where
  "inherited_names = ''__proto__'' # map fst Object_prototype_functions"

text \<open>\<^verbatim>\<open>acc[k]\<close>\<close>

definition js_read :: "jsobj \<Rightarrow> string \<Rightarrow> jsread" where
  "js_read acc k =
     (case map_of acc k of
        Some v \<Rightarrow> Own v
      | None \<Rightarrow>
          if k = ''__proto__'' then InheritedObject
          else (case map_of Object_prototype_functions k of
                  Some nm \<Rightarrow> InheritedFunction nm
                | None \<Rightarrow> Undefined))"

text \<open>
  \<^verbatim>\<open>(x || 0) + 1\<close>: a number is incremented (\<open>0\<close> is falsy and \<open>0 + 1\<close> is the same
  increment); a non-empty string, a function and an object are truthy and \<^verbatim>\<open>+ 1\<close>
  appends \<^verbatim>\<open>"1"\<close> to their string form.
\<close>

definition or_zero_plus_one :: "jsread \<Rightarrow> jsval" where
  "or_zero_plus_one r =
     (case r of
        Undefined \<Rightarrow> JNum 1
      | Own (JNum n) \<Rightarrow> JNum (n + 1)
      | Own (JStr s) \<Rightarrow> (if s = [] then JNum 1 else JStr (s @ ''1''))
      | InheritedFunction nm \<Rightarrow> JStr (''function '' @ nm @ ''() { [native code] }'' @ ''1'')
      | InheritedObject \<Rightarrow> JStr ''[object Object]1'')"

text \<open>
  \<^verbatim>\<open>acc[k] = v\<close>: the inherited setter of \<^verbatim>\<open>__proto__\<close> ignores a value that is not an
  object; every other key becomes (or stays) an own property.
\<close>

definition js_assign :: "jsobj \<Rightarrow> string \<Rightarrow> jsval \<Rightarrow> jsobj" where
  "js_assign acc k v = (if k = ''__proto__'' then acc else AList.update k v acc)"

text \<open>\<^verbatim>\<open>acc[k] = (acc[k] || 0) + 1; return acc\<close>\<close>

definition count_key :: "jsobj \<Rightarrow> string \<Rightarrow> jsobj" where
  "count_key acc k = js_assign acc k (or_zero_plus_one (js_read acc k))"

text \<open>
  \<^verbatim>\<open>new Set(xs).size\<close>: the set keeps the first occurrence of each value (strings and
  \<^verbatim>\<open>undefined\<close> compare by value).
\<close>

definition Set_add :: "'a list \<Rightarrow> 'a \<Rightarrow> 'a list" where
  "Set_add s x = (if x \<in> set s then s else s @ [x])"

definition Set_size :: "'a list \<Rightarrow> nat" where
  "Set_size xs = length (foldl Set_add [] xs)"

section \<open>Click events and the statistics over them\<close>

text \<open>
  \<^verbatim>\<open>IClickEvent\<close> and its schema: \<open>linkId\<close>, \<open>ip\<close>, \<open>device\<close>, \<open>browser\<close> and \<open>os\<close> are
  required, \<open>timestamp\<close> defaults to the creation time, the other paths are optional.
\<close>

record ClickEvent =
  linkId :: oid
  timestamp :: instant
  ip :: string
  country :: opt_string
  city :: opt_string
  device :: string
  browser :: string
  os :: string
  referrer :: opt_string
  utmSource :: opt_string
  utmMedium :: opt_string
  utmCampaign :: opt_string

record Stats =
  totalClicks :: nat
  uniqueCountries :: nat
  uniqueDevices :: nat
  uniqueBrowsers :: nat
  referrerBreakdown :: jsobj
  countryBreakdown :: jsobj
  deviceBreakdown :: jsobj
  browserBreakdown :: jsobj
  utmBreakdown_source :: jsobj
  utmBreakdown_medium :: jsobj
  utmBreakdown_campaign :: jsobj

text \<open>
  The statistics block of \<^verbatim>\<open>GET /links/:linkId\<close> (analytics.ts, lines 38 to 86).  The
  link listing (\<^verbatim>\<open>GET /\<close> of the link routes) repeats the same statements word for
  word on its own \<open>clicks\<close>, so both handlers below call this one definition.
\<close>

definition aggregate :: "ClickEvent list \<Rightarrow> Stats" where
  "aggregate clicks =
     \<lparr> totalClicks = length clicks,
       uniqueCountries = Set_size (map country clicks),
       uniqueDevices = Set_size (map device clicks),
       uniqueBrowsers = Set_size (map browser clicks),
       referrerBreakdown =
         foldl (\<lambda>acc click. count_key acc (js_or (definite (referrer click)) ''Direct'')) [] clicks,
       countryBreakdown =
         foldl (\<lambda>acc click. count_key acc (js_or (definite (country click)) ''Unknown'')) [] clicks,
       deviceBreakdown = foldl (\<lambda>acc click. count_key acc (device click)) [] clicks,
       browserBreakdown = foldl (\<lambda>acc click. count_key acc (browser click)) [] clicks,
       utmBreakdown_source =
         foldl (\<lambda>acc click. count_key acc (js_or (definite (utmSource click)) ''Direct'')) [] clicks,
       utmBreakdown_medium =
         foldl (\<lambda>acc click. count_key acc (js_or (definite (utmMedium click)) ''None'')) [] clicks,
       utmBreakdown_campaign =
         foldl (\<lambda>acc click. count_key acc (js_or (definite (utmCampaign click)) ''None'')) [] clicks \<rparr>"

text \<open>
  The sum of the values of a breakdown, for the reader of the response: defined when
  every value is a count.
\<close>

fun sum_values :: "jsobj \<Rightarrow> nat option" where
  "sum_values [] = Some 0"
| "sum_values ((k, JNum n) # rest) = map_option (\<lambda>s. n + s) (sum_values rest)"
| "sum_values ((k, JStr s) # rest) = None"

section \<open>Links, the two collections and their queries\<close>

text \<open>
  \<^verbatim>\<open>ILink\<close> and its schema, restricted to the paths the handlers below read.  After the
  schema defaults \<open>passwordProtected\<close> is a boolean.  The path \<open>password\<close> is declared
  \<^verbatim>\<open>select: false\<close>.
\<close>

record Link =
  link_id :: oid
  ownerId :: oid
  domain :: string
  slug :: string
  destinationUrl :: string
  expiresAt :: "instant option"
  passwordProtected :: bool
  password :: "string option"
  createdAt :: instant

text \<open>The collections, each in its natural (insertion) order.\<close>

record Store =
  links :: "Link list"
  clickEvents :: "ClickEvent list"

text \<open>
  Whatever a handler can catch and pass to \<^verbatim>\<open>next\<close>: an \<^verbatim>\<open>AppError(message, statusCode)\<close>
  of its own, a Mongoose cast or validation error, a failure of the database driver, or
  an exception of one of the libraries the click recorder calls.
\<close>

datatype failure =
    AppError string nat
  | CastError string
  | ValidationError "string list"
  | DriverError string
  | LibraryError string

text \<open>
  An id as a request carries it: absent, a value that does not cast to an \<^verbatim>\<open>ObjectId\<close>, or
  an \<^verbatim>\<open>ObjectId\<close>.
\<close>

datatype id_input = IdAbsent | IdMalformed string | IdOf oid

record GeoLookup =
  lookup_country :: "string option"
  lookup_city :: "string option"
  lookup_region :: "string option"

record UAResult =
  device_type :: "string option"
  device_vendor :: "string option"
  device_model :: "string option"
  browser_name :: "string option"
  browser_version :: "string option"
  os_name :: "string option"
  os_version :: "string option"

text \<open>
  What the handlers do not contain themselves: \<^verbatim>\<open>geoip.lookup\<close>, \<^verbatim>\<open>UAParser\<close>, the state
  of the database connection for reads and for the click-event write, and the
  environment variable \<^verbatim>\<open>BACKEND_URL\<close>.  Each library call may throw.
\<close>

record Env =
  geoip_lookup :: "string \<Rightarrow> failure + GeoLookup option"
  ua_parse :: "string \<Rightarrow> failure + UAResult"
  read_fault :: "failure option"
  write_fault :: "failure option"
  BACKEND_URL :: "string option"

text \<open>
  A query without \<^verbatim>\<open>.select('+password')\<close> returns documents without the paths the
  schema marks \<^verbatim>\<open>select: false\<close>.
\<close>

definition default_projection :: "Link \<Rightarrow> Link" where
  "default_projection l = l\<lparr>password := None\<rparr>"

text \<open>\<^verbatim>\<open>Link.findOne(filter)\<close>\<close>

definition Link_findOne :: "Env \<Rightarrow> Store \<Rightarrow> (Link \<Rightarrow> bool) \<Rightarrow> failure + Link option" where
  "Link_findOne env st cond =
     (case read_fault env of
        Some e \<Rightarrow> Inl e
      | None \<Rightarrow> Inr (map_option default_projection (find cond (links st))))"

text \<open>
  A filter on \<open>_id\<close>: the value is cast first; \<^verbatim>\<open>findById(undefined)\<close> asks for
  \<^verbatim>\<open>{ _id: null }\<close>, which no document matches.
\<close>

definition Link_findOne_by_id :: "Env \<Rightarrow> Store \<Rightarrow> id_input \<Rightarrow> (Link \<Rightarrow> bool) \<Rightarrow> failure + Link option" where
  "Link_findOne_by_id env st i cond =
     (case i of
        IdMalformed v \<Rightarrow> Inl (CastError v)
      | IdAbsent \<Rightarrow> (case read_fault env of Some e \<Rightarrow> Inl e | None \<Rightarrow> Inr None)
      | IdOf n \<Rightarrow> Link_findOne env st (\<lambda>l. link_id l = n \<and> cond l))"

text \<open>\<^verbatim>\<open>Link.findById(id)\<close>\<close>

definition Link_findById :: "Env \<Rightarrow> Store \<Rightarrow> id_input \<Rightarrow> failure + Link option" where
  "Link_findById env st i = Link_findOne_by_id env st i (\<lambda>l. True)"





text \<open>
  The argument of \<^verbatim>\<open>ClickEvent.create\<close>, path by path.  Keys the schema does not declare
  (\<open>region\<close>, \<open>deviceType\<close>, \<open>utmParams\<close>, \<open>queryParams\<close>, \<open>language\<close>, \<open>screenSize\<close>, ...)
  are dropped by the strict schema and are not part of the stored document.
\<close>

record ClickEventInput =
  in_linkId :: id_input
  in_timestamp :: "instant option"
  in_ip :: json_field
  in_country :: json_field
  in_city :: json_field
  in_device :: json_field
  in_browser :: json_field
  in_os :: json_field
  in_referrer :: json_field
  in_utmSource :: json_field
  in_utmMedium :: json_field
  in_utmCampaign :: json_field

text \<open>
  The paths that fail validation, in schema order.  A required string path fails when it
  is missing, \<^verbatim>\<open>null\<close>, empty or not castable; an optional one when it is not castable.
\<close>

definition required_string :: "string \<Rightarrow> json_field \<Rightarrow> string list" where
  "required_string path v = (case v of JString s \<Rightarrow> if s = [] then [path] else [] | _ \<Rightarrow> [path])"

definition optional_string :: "string \<Rightarrow> json_field \<Rightarrow> string list" where
  "optional_string path v = (case cast_string v of None \<Rightarrow> [path] | Some x \<Rightarrow> [])"

definition invalid_paths :: "ClickEventInput \<Rightarrow> string list" where
  "invalid_paths inp =
     (case in_linkId inp of IdOf n \<Rightarrow> [] | IdAbsent \<Rightarrow> [''linkId''] | IdMalformed v \<Rightarrow> [''linkId''])
     @ required_string ''ip'' (in_ip inp)
     @ optional_string ''country'' (in_country inp)
     @ optional_string ''city'' (in_city inp)
     @ required_string ''device'' (in_device inp)
     @ required_string ''browser'' (in_browser inp)
     @ required_string ''os'' (in_os inp)
     @ optional_string ''referrer'' (in_referrer inp)
     @ optional_string ''utmSource'' (in_utmSource inp)
     @ optional_string ''utmMedium'' (in_utmMedium inp)
     @ optional_string ''utmCampaign'' (in_utmCampaign inp)"

text \<open>
  The document that passes validation, with \<open>timestamp\<close> defaulting to \<^verbatim>\<open>Date.now\<close>; \<open>None\<close>
  when a path fails.
\<close>

definition validated :: "instant \<Rightarrow> ClickEventInput \<Rightarrow> ClickEvent option" where
  "validated now inp =
     (case (in_linkId inp, in_ip inp, in_device inp, in_browser inp, in_os inp) of
        (IdOf n, JString i, JString d, JString b, JString s) \<Rightarrow>
          (case (cast_string (in_country inp), cast_string (in_city inp),
                 cast_string (in_referrer inp), cast_string (in_utmSource inp),
                 cast_string (in_utmMedium inp), cast_string (in_utmCampaign inp)) of
             (Some co, Some ci, Some re, Some us, Some um, Some uc) \<Rightarrow>
               if i \<noteq> [] \<and> d \<noteq> [] \<and> b \<noteq> [] \<and> s \<noteq> [] then
                 Some \<lparr> linkId = n,
                        timestamp = (case in_timestamp inp of Some t \<Rightarrow> t | None \<Rightarrow> now),
                        ip = i,
                        country = co,
                        city = ci,
                        device = d,
                        browser = b,
                        os = s,
                        referrer = re,
                        utmSource = us,
                        utmMedium = um,
                        utmCampaign = uc \<rparr>
               else None
           | _ \<Rightarrow> None)
      | _ \<Rightarrow> None)"

text \<open>
  \<^verbatim>\<open>ClickEvent.create(doc)\<close>: validation, then the insert at the end of the collection.
\<close>

definition ClickEvent_create :: "Env \<Rightarrow> instant \<Rightarrow> Store \<Rightarrow> ClickEventInput \<Rightarrow> failure + (ClickEvent \<times> Store)" where
  "ClickEvent_create env now st inp =
     (case validated now inp of
        None \<Rightarrow> Inl (ValidationError (invalid_paths inp))
      | Some ev \<Rightarrow>
          (case write_fault env of
             Some e \<Rightarrow> Inl e
           | None \<Rightarrow> Inr (ev, st\<lparr>clickEvents := clickEvents st @ [ev]\<rparr>)))"

section \<open>Requests and responses\<close>

text \<open>
  A parsed query value is a string, or an array or nested object (a repeated or
  bracketed parameter): truthy, and never \<^verbatim>\<open>===\<close> to a string.
\<close>

datatype qval = QString string | QComposite

record Request =
  headers :: "string \<Rightarrow> string option"
  query :: "string \<Rightarrow> qval option"
  remoteAddress :: "string option"

record LinkWithStats =
  lws_id :: oid
  lws_slug :: string
  lws_destinationUrl :: string
  lws_shortUrl :: string
  lws_expiresAt :: "instant option"
  lws_passwordProtected :: bool
  lws_password :: "string option"
  lws_stats :: Stats
  lws_recentClicks :: "ClickEvent list"
  lws_createdAt :: instant

datatype Response =
    Next failure
  | Redirect string
  | JsonMessage nat string string
  | JsonClickEvent nat ClickEvent
  | JsonAnalytics Stats "ClickEvent list"
  | JsonLinks nat "LinkWithStats list"

section \<open>The click recorder (redirect.ts, trackClickEvent)\<close>

text \<open>
  \<^verbatim>\<open>String.prototype.trim\<close> on a header value (a Latin-1 string): tab, line feed,
  vertical tab, form feed, carriage return, space and no-break space are white space.
\<close>

definition js_whitespace :: "char \<Rightarrow> bool" where
  "js_whitespace c = (of_char c \<in> {9, 10, 11, 12, 13, 32, 160 :: nat})"

definition js_trim :: "string \<Rightarrow> string" where
  "js_trim s = rev (dropWhile js_whitespace (rev (dropWhile js_whitespace s)))"

text \<open>
  The first element of \<^verbatim>\<open>x-forwarded-for\<close> split at commas and trimmed, else
  \<^verbatim>\<open>x-real-ip\<close>, else the socket's address, else \<^verbatim>\<open>"Unknown"\<close>.
\<close>

definition client_ip :: "Request \<Rightarrow> string" where
  "client_ip req =
     js_or (map_option (\<lambda>h. js_trim (takeWhile (\<lambda>c. c \<noteq> CHR '','') h)) (headers req ''x-forwarded-for''))
       (js_or (headers req ''x-real-ip'')
          (js_or (remoteAddress req) ''Unknown''))"

record Geo =
  geo_country :: string
  geo_city :: string
  geo_region :: string

text \<open>
  Lines 21 to 34.  The first component lists the addresses handed to \<^verbatim>\<open>geoip.lookup\<close>.
\<close>

definition resolve_geo :: "Env \<Rightarrow> string \<Rightarrow> string list \<times> (failure + Geo)" where
  "resolve_geo env addr =
     (if addr \<noteq> [] \<and> addr \<noteq> ''::1'' \<and> \<not> prefix ''127.0.0.1'' addr then
        ([addr],
         case geoip_lookup env addr of
           Inl e \<Rightarrow> Inl e
         | Inr None \<Rightarrow>
             Inr \<lparr> geo_country = ''Unknown'', geo_city = ''Unknown'', geo_region = ''Unknown'' \<rparr>
         | Inr (Some g) \<Rightarrow>
             Inr \<lparr> geo_country = js_or (lookup_country g) ''Unknown'',
                   geo_city = js_or (lookup_city g) ''Unknown'',
                   geo_region = js_or (lookup_region g) ''Unknown'' \<rparr>)
      else
        ([], Inr \<lparr> geo_country = ''Local'', geo_city = ''Development'', geo_region = ''Local'' \<rparr>))"

text \<open>Lines 41 to 58: the device, browser and OS descriptions.\<close>

definition device_info :: "UAResult \<Rightarrow> string" where
  "device_info r =
     (if truthy (device_type r) then
        let d0 = js_or (device_type r) [];
            d1 = (if truthy (device_vendor r) then js_or (device_vendor r) [] @ '' '' @ d0 else d0);
            d2 = (if truthy (device_model r) then d1 @ '' '' @ js_or (device_model r) [] else d1)
        in d2
      else if truthy (os_name r) then ''Desktop ('' @ js_or (os_name r) [] @ '')''
      else ''Unknown'')"

definition browser_info :: "UAResult \<Rightarrow> string" where
  "browser_info r =
     (if truthy (browser_name r)
      then js_or (browser_name r) [] @ '' '' @ js_or (browser_version r) []
      else ''Unknown'')"

definition os_info :: "UAResult \<Rightarrow> string" where
  "os_info r =
     (if truthy (os_name r)
      then js_or (os_name r) [] @ '' '' @ js_or (os_version r) []
      else ''Unknown'')"

text \<open>
  \<^verbatim>\<open>utmParams.k\<close>: the loop of lines 61 to 68 copies \<^verbatim>\<open>req.query['utm_' + k]\<close> when it is a
  string.
\<close>

definition utm_param :: "Request \<Rightarrow> string \<Rightarrow> string option" where
  "utm_param req k = (case query req (''utm_'' @ k) of Some (QString v) \<Rightarrow> Some v | _ \<Rightarrow> None)"

text \<open>
  \<^verbatim>\<open>req.get("Referer") || "Direct"\<close>: Express reads \<^verbatim>\<open>headers.referrer || headers.referer\<close>.
\<close>

definition referer_or_direct :: "Request \<Rightarrow> string" where
  "referer_or_direct req = js_or (headers req ''referrer'') (js_or (headers req ''referer'') ''Direct'')"

text \<open>The body of the \<^verbatim>\<open>try\<close> block: the first failure of a step leaves the block.\<close>

definition trackClickEvent_try :: "Env \<Rightarrow> instant \<Rightarrow> Store \<Rightarrow> Request \<Rightarrow> Link \<Rightarrow> failure + (ClickEvent \<times> Store)" where
  "trackClickEvent_try env now st req link =
     (let addr = client_ip req in
      case snd (resolve_geo env addr) of
        Inl e \<Rightarrow> Inl e
      | Inr geo \<Rightarrow>
          (case ua_parse env (js_or (headers req ''user-agent'') []) of
             Inl e \<Rightarrow> Inl e
           | Inr result \<Rightarrow>
               ClickEvent_create env now st
                 \<lparr> in_linkId = IdOf (link_id link),
                   in_timestamp = Some now,
                   in_ip = JString addr,
                   in_country = JString (geo_country geo),
                   in_city = JString (geo_city geo),
                   in_device = JString (device_info result),
                   in_browser = JString (browser_info result),
                   in_os = JString (os_info result),
                   in_referrer = JString (referer_or_direct req),
                   in_utmSource = json_of_undefined (utm_param req ''source''),
                   in_utmMedium = json_of_undefined (utm_param req ''medium''),
                   in_utmCampaign = json_of_undefined (utm_param req ''campaign'') \<rparr>))"

text \<open>
  \<^verbatim>\<open>trackClickEvent\<close>: the \<^verbatim>\<open>catch\<close> logs the error and returns \<^verbatim>\<open>null\<close> (\<open>None\<close>).  The result
  type still has room for a failure, so that ``does not raise'' is a statement about the
  function and not about its type.
\<close>

definition trackClickEvent :: "Env \<Rightarrow> instant \<Rightarrow> Store \<Rightarrow> Request \<Rightarrow> Link \<Rightarrow> failure + (ClickEvent option \<times> Store)" where
  "trackClickEvent env now st req link =
     (case trackClickEvent_try env now st req link of
        Inl e \<Rightarrow> Inr (None, st)
      | Inr (ev, st') \<Rightarrow> Inr (Some ev, st'))"

text \<open>
  \<^verbatim>\<open>trackClickEvent(req, link).catch(err => console.error(...))\<close>, not awaited: the
  collection as the recorder leaves it, whatever the recorder's outcome.
\<close>

definition track_detached :: "Env \<Rightarrow> instant \<Rightarrow> Store \<Rightarrow> Request \<Rightarrow> Link \<Rightarrow> Store" where
  "track_detached env now st req link =
     (case trackClickEvent env now st req link of
        Inl e \<Rightarrow> st
      | Inr (r, st') \<Rightarrow> st')"

section \<open>The redirect routes (redirect.ts)\<close>

text \<open>\<^verbatim>\<open>link.expiresAt && link.expiresAt < new Date()\<close>\<close>

definition expired :: "Link \<Rightarrow> instant \<Rightarrow> bool" where
  "expired link now = (case expiresAt link of None \<Rightarrow> False | Some e \<Rightarrow> e < now)"

text \<open>\<^verbatim>\<open>!password || password !== link.password\<close>, for \<^verbatim>\<open>password = req.query.password\<close>\<close>

definition password_rejected :: "qval option \<Rightarrow> string option \<Rightarrow> bool" where
  "password_rejected q stored =
     (case q of
        None \<Rightarrow> True
      | Some QComposite \<Rightarrow> True
      | Some (QString s) \<Rightarrow> s = [] \<or> Some s \<noteq> stored)"

text \<open>
  \<^verbatim>\<open>GET /:domain/:slug\<close>.  \<open>now\<close> is the instant of the expiry test, \<open>later\<close> the instant
  at which the detached recorder runs.  The result is the response and the store the
  request leaves behind.
\<close>

definition redirect_domain_slug :: "Env \<Rightarrow> instant \<Rightarrow> instant \<Rightarrow> Store \<Rightarrow> Request \<Rightarrow> string \<Rightarrow> string \<Rightarrow> Response \<times> Store" where
  "redirect_domain_slug env now later st req d s =
     (case Link_findOne env st (\<lambda>l. domain l = d \<and> slug l = s) of
        Inl e \<Rightarrow> (Next e, st)
      | Inr None \<Rightarrow> (Next (AppError ''Link not found'' 404), st)
      | Inr (Some link) \<Rightarrow>
          if expired link now then (Next (AppError ''Link has expired'' 410), st)
          else if passwordProtected link \<and> password_rejected (query req ''password'') (password link)
          then (JsonMessage 401 ''error'' ''Password required'', st)
          else (Redirect (destinationUrl link), track_detached env later st req link))"

text \<open>\<^verbatim>\<open>GET /:slug\<close>: the same body after a lookup by slug alone.\<close>

definition redirect_slug :: "Env \<Rightarrow> instant \<Rightarrow> instant \<Rightarrow> Store \<Rightarrow> Request \<Rightarrow> string \<Rightarrow> Response \<times> Store" where
  "redirect_slug env now later st req s =
     (case Link_findOne env st (\<lambda>l. slug l = s) of
        Inl e \<Rightarrow> (Next e, st)
      | Inr None \<Rightarrow> (Next (AppError ''Link not found'' 404), st)
      | Inr (Some link) \<Rightarrow>
          if expired link now then (Next (AppError ''Link has expired'' 410), st)
          else if passwordProtected link \<and> password_rejected (query req ''password'') (password link)
          then (JsonMessage 401 ''error'' ''Password required'', st)
          else (Redirect (destinationUrl link), track_detached env later st req link))"

section \<open>The analytics routes (analytics.ts) and the link listing\<close>




text \<open>
  The body of \<^verbatim>\<open>POST /clicks\<close>: the eleven keys the handler destructures from the
  untyped \<^verbatim>\<open>req.body\<close>.
\<close>

record ClickBody =
  b_linkId :: id_input
  b_ip :: json_field
  b_country :: json_field
  b_city :: json_field
  b_device :: json_field
  b_browser :: json_field
  b_os :: json_field
  b_referrer :: json_field
  b_utmSource :: json_field
  b_utmMedium :: json_field
  b_utmCampaign :: json_field

definition post_clicks :: "Env \<Rightarrow> instant \<Rightarrow> Store \<Rightarrow> ClickBody \<Rightarrow> Response \<times> Store" where
  "post_clicks env now st body =
     (case Link_findById env st (b_linkId body) of
        Inl e \<Rightarrow> (Next e, st)
      | Inr None \<Rightarrow> (Next (AppError ''Link not found'' 404), st)
      | Inr (Some link) \<Rightarrow>
          (case ClickEvent_create env now st
                  \<lparr> in_linkId = b_linkId body,
                    in_timestamp = None,
                    in_ip = b_ip body,
                    in_country = b_country body,
                    in_city = b_city body,
                    in_device = b_device body,
                    in_browser = b_browser body,
                    in_os = b_os body,
                    in_referrer = b_referrer body,
                    in_utmSource = b_utmSource body,
                    in_utmMedium = b_utmMedium body,
                    in_utmCampaign = b_utmCampaign body \<rparr> of
             Inl e \<Rightarrow> (Next e, st)
           | Inr (ev, st') \<Rightarrow> (JsonClickEvent 201 ev, st')))"




section \<open>Sample data\<close>

text \<open>
  Concrete environments, requests, links and stores for the instances below: a healthy
  environment whose geo database knows no address, one whose geo lookup throws and whose
  click-event write fails, and one whose geo lookup resolves the country only.
\<close>

definition sample_click :: "instant \<Rightarrow> opt_string \<Rightarrow> ClickEvent" where
  "sample_click t r =
     \<lparr> linkId = 1, timestamp = t, ip = ''203.0.113.9'', country = Str ''DE'', city = Absent,
       device = ''Desktop (Linux)'', browser = ''Firefox 120.0'', os = ''Linux x86_64'',
       referrer = r, utmSource = Absent, utmMedium = Absent, utmCampaign = Absent \<rparr>"

text \<open>
  An event ``with an empty (absent) referrer'': the stored document has no \<open>referrer\<close>,
  a \<^verbatim>\<open>null\<close> one or an empty one.
\<close>

definition empty_referrer :: "ClickEvent \<Rightarrow> bool" where
  "empty_referrer c = (referrer c = Absent \<or> referrer c = Null \<or> referrer c = Str [])"

definition quiet_env :: Env where
  "quiet_env =
     \<lparr> geoip_lookup = (\<lambda>a. Inr None),
       ua_parse = (\<lambda>u. Inr \<lparr> device_type = None, device_vendor = None, device_model = None,
                              browser_name = Some ''Firefox'', browser_version = Some ''120.0'',
                              os_name = Some ''Linux'', os_version = None \<rparr>),
       read_fault = None,
       write_fault = None,
       BACKEND_URL = None \<rparr>"

definition broken_env :: Env where
  "broken_env =
     quiet_env \<lparr> geoip_lookup := (\<lambda>a. Inl (LibraryError ''geoip'')),
                 write_fault := Some (DriverError ''connection lost'') \<rparr>"

definition geo_env :: Env where
  "geo_env =
     quiet_env \<lparr> geoip_lookup :=
       (\<lambda>a. Inr (Some \<lparr> lookup_country = Some ''US'', lookup_city = Some [], lookup_region = None \<rparr>)) \<rparr>"

definition plain_request :: Request where
  "plain_request =
     \<lparr> headers = (\<lambda>h. None), query = (\<lambda>k. None), remoteAddress = Some ''203.0.113.9'' \<rparr>"

definition password_request :: "string \<Rightarrow> Request" where
  "password_request pw =
     plain_request \<lparr> query := (\<lambda>k. if k = ''password'' then Some (QString pw) else None) \<rparr>"

definition forwarded_request :: Request where
  "forwarded_request =
     plain_request \<lparr> headers := (\<lambda>h. if h = ''x-forwarded-for'' then Some ''1.2.3.4, 5.6.7.8'' else None) \<rparr>"

definition loopback_request :: Request where
  "loopback_request = plain_request \<lparr> remoteAddress := Some ''127.0.0.1'' \<rparr>"

definition sample_link :: Link where
  "sample_link =
     \<lparr> link_id = 1, ownerId = 7, domain = ''xpro.li'', slug = ''abc'',
       destinationUrl = ''https://example.org/'', expiresAt = None,
       passwordProtected = False, password = None, createdAt = 0 \<rparr>"

definition expired_protected_link :: Link where
  "expired_protected_link =
     sample_link \<lparr> expiresAt := Some 49, passwordProtected := True, password := Some ''s3cret'' \<rparr>"

definition protected_link :: Link where
  "protected_link = sample_link \<lparr> passwordProtected := True, password := Some ''s3cret'' \<rparr>"

definition store_of :: "Link \<Rightarrow> Store" where
  "store_of l = \<lparr> links = [l], clickEvents = [] \<rparr>"

definition six_clicks_store :: Store where
  "six_clicks_store =
     \<lparr> links = [sample_link],
       clickEvents = map (\<lambda>t. sample_click t Absent) [1, 2, 3, 4, 5, 6] \<rparr>"

definition bare_body :: "id_input \<Rightarrow> ClickBody" where
  "bare_body i =
     \<lparr> b_linkId = i, b_ip = JAbsent, b_country = JAbsent, b_city = JAbsent, b_device = JAbsent,
       b_browser = JAbsent, b_os = JAbsent, b_referrer = JAbsent, b_utmSource = JAbsent,
       b_utmMedium = JAbsent, b_utmCampaign = JAbsent \<rparr>"

definition full_body :: "id_input \<Rightarrow> ClickBody" where
  "full_body i =
     (bare_body i) \<lparr> b_ip := JString ''198.51.100.7'', b_device := JString ''mobile'',
                      b_browser := JString ''Safari'', b_os := JString ''iOS'', b_country := JNull \<rparr>"




section \<open>Auxiliary notions for the proofs\<close>

text \<open>What \<^verbatim>\<open>acc[k]\<close> reads, as a function of the own property (if any) under \<open>k\<close>.\<close>

definition read_of :: "string \<Rightarrow> jsval option \<Rightarrow> jsread" where
  "read_of k v =
     (case v of
        Some x \<Rightarrow> Own x
      | None \<Rightarrow>
          if k = ''__proto__'' then InheritedObject
          else (case map_of Object_prototype_functions k of
                  Some nm \<Rightarrow> InheritedFunction nm
                | None \<Rightarrow> Undefined))"

text \<open>The own property under \<open>k\<close> after \<open>n\<close> further countings of \<open>k\<close>.\<close>

primrec after :: "nat \<Rightarrow> string \<Rightarrow> jsval option \<Rightarrow> jsval option" where
  "after 0 k v = v"
| "after (Suc n) k v = after n k (Some (or_zero_plus_one (read_of k v)))"

section \<open>The statistics: counting keys\<close>

lemma js_read_read_of: "js_read acc k = read_of k (map_of acc k)"
  by (simp add: js_read_def read_of_def)

lemma map_of_count_key:
  "map_of (count_key acc k) =
     (if k = ''__proto__'' then map_of acc
      else (map_of acc)(k \<mapsto> or_zero_plus_one (read_of k (map_of acc k))))"
  by (simp add: count_key_def js_assign_def update_conv' js_read_read_of)

lemma distinct_count_key:
  "distinct (map fst acc) \<Longrightarrow> distinct (map fst (count_key acc k))"
  by (simp add: count_key_def js_assign_def distinct_update)

lemma distinct_foldl_count_key:
  "distinct (map fst acc) \<Longrightarrow> distinct (map fst (foldl (\<lambda>a c. count_key a (f c)) acc cs))"
  by (induction cs arbitrary: acc) (simp_all add: distinct_count_key)

lemma map_of_foldl_count_key:
  "map_of (foldl (\<lambda>a c. count_key a (f c)) acc cs) k =
     (if k = ''__proto__'' then map_of acc k
      else after (count_list (map f cs) k) k (map_of acc k))"
proof (induction cs arbitrary: acc)
  case Nil
  show ?case by simp
next
  case (Cons c cs)
  show ?case
    by (simp add: Cons.IH map_of_count_key)
qed

lemma Set_add_distinct: "distinct s \<Longrightarrow> distinct (Set_add s x)"
  by (simp add: Set_add_def)

lemma set_Set_add: "set (Set_add s x) = insert x (set s)"
  by (auto simp: Set_add_def)

lemma foldl_Set_add:
  "distinct s \<Longrightarrow> distinct (foldl Set_add s xs) \<and> set (foldl Set_add s xs) = set s \<union> set xs"
  by (induction xs arbitrary: s) (simp_all add: Set_add_distinct set_Set_add)

lemma Set_size_card: "Set_size xs = card (set xs)"
proof -
  have "distinct (foldl Set_add [] xs)" and "set (foldl Set_add [] xs) = set xs"
    using foldl_Set_add [of "[]" xs] by simp_all
  then show ?thesis
    using distinct_card [of "foldl Set_add [] xs"] by (simp add: Set_size_def)
qed

lemma after_JNum: "after n k (Some (JNum m)) = Some (JNum (m + n))"
  by (induction n arbitrary: m) (simp_all add: read_of_def or_zero_plus_one_def)

lemma read_of_plain:
  "k \<notin> set inherited_names \<Longrightarrow> read_of k None = Undefined"
  by (auto simp: read_of_def inherited_names_def map_of_eq_None_iff [symmetric] split: option.splits)

lemma after_plain:
  "k \<notin> set inherited_names \<Longrightarrow> after n k None = (if n = 0 then None else Some (JNum n))"
  by (cases n) (simp_all add: read_of_plain or_zero_plus_one_def after_JNum)

lemma sum_values_update_new:
  "sum_values acc = Some s \<Longrightarrow> map_of acc k = None \<Longrightarrow>
   sum_values (AList.update k (JNum 1) acc) = Some (s + 1)"
proof (induction acc arbitrary: s rule: sum_values.induct)
  case 1
  then show ?case by simp
next
  case (2 k' n rest)
  then show ?case by (auto split: if_splits)
next
  case (3 k' t rest)
  then show ?case by simp
qed

lemma sum_values_update_old:
  "sum_values acc = Some s \<Longrightarrow> map_of acc k = Some (JNum n) \<Longrightarrow>
   sum_values (AList.update k (JNum (n + 1)) acc) = Some (s + 1)"
proof (induction acc arbitrary: s rule: sum_values.induct)
  case 1
  then show ?case by simp
next
  case (2 k' m rest)
  then show ?case by (auto split: if_splits)
next
  case (3 k' t rest)
  then show ?case by simp
qed

lemma sum_values_all_counts:
  "sum_values acc = Some s \<Longrightarrow> map_of acc k = Some v \<Longrightarrow> \<exists>n. v = JNum n"
proof (induction acc arbitrary: s rule: sum_values.induct)
  case 1
  then show ?case by simp
next
  case (2 k' m rest)
  then show ?case by (auto split: if_splits)
next
  case (3 k' t rest)
  then show ?case by simp
qed

lemma proto_inherited: "''__proto__'' \<in> set inherited_names"
  by (simp add: inherited_names_def)

lemma sum_values_count_key:
  assumes "sum_values acc = Some s" and "k \<notin> set inherited_names"
  shows "sum_values (count_key acc k) = Some (s + 1)"
proof (cases "map_of acc k")
  case None
  from assms proto_inherited have "count_key acc k = AList.update k (JNum 1) acc"
    by (auto simp: count_key_def js_assign_def js_read_read_of None read_of_plain
        or_zero_plus_one_def)
  with assms(1) None show ?thesis
    by (simp only: sum_values_update_new)
next
  case (Some v)
  with assms obtain n where v: "v = JNum n"
    using sum_values_all_counts by blast
  from assms proto_inherited have "count_key acc k = AList.update k (JNum (n + 1)) acc"
    by (auto simp: count_key_def js_assign_def js_read_def Some v or_zero_plus_one_def)
  with assms(1) Some v show ?thesis
    by (simp only: sum_values_update_old)
qed

lemma sum_values_foldl:
  "sum_values acc = Some s \<Longrightarrow> \<forall>c\<in>set cs. f c \<notin> set inherited_names \<Longrightarrow>
   sum_values (foldl (\<lambda>a c. count_key a (f c)) acc cs) = Some (s + length cs)"
proof (induction cs arbitrary: acc s)
  case Nil
  then show ?case by simp
next
  case (Cons c cs)
  from Cons.prems have "sum_values (count_key acc (f c)) = Some (s + 1)"
    by (simp add: sum_values_count_key)
  from Cons.IH [OF this] Cons.prems(2) show ?case by simp
qed

lemma breakdown_perm:
  assumes "mset xs = mset ys"
  shows "set (foldl (\<lambda>a c. count_key a (f c)) [] xs) = set (foldl (\<lambda>a c. count_key a (f c)) [] ys)"
proof -
  have "mset (map f xs) = mset (map f ys)"
    using assms by simp
  then have cnt: "count_list (map f xs) k = count_list (map f ys) k" for k
    by (metis count_mset)
  have "map_of (foldl (\<lambda>a c. count_key a (f c)) [] xs) = map_of (foldl (\<lambda>a c. count_key a (f c)) [] ys)"
    by (rule ext) (simp add: map_of_foldl_count_key cnt)
  moreover have "distinct (map fst (foldl (\<lambda>a c. count_key a (f c)) [] xs))"
    and "distinct (map fst (foldl (\<lambda>a c. count_key a (f c)) [] ys))"
    by (simp_all add: distinct_foldl_count_key)
  ultimately show ?thesis
    by (simp add: map_of_inject_set)
qed

lemma Set_size_perm: "mset xs = mset ys \<Longrightarrow> Set_size (map f xs) = Set_size (map f ys)"
  by (metis Set_size_card mset_eq_setD mset_map)

lemma card_split_one:
  "finite S \<Longrightarrow> card S = card (S - {x}) + (if x \<in> S then 1 else 0)"
proof (cases "x \<in> S")
  case True
  assume "finite S"
  from card.remove [OF this True] True show ?thesis by simp
next
  case False
  then show ?thesis by simp
qed

lemma count_list_map_filter: "count_list (map f cs) k = length (filter (\<lambda>c. f c = k) cs)"
  by (induction cs) simp_all

lemma Direct_plain: "''Direct'' \<notin> set inherited_names"
  by (simp add: inherited_names_def Object_prototype_functions_def)

lemma direct_key_iff:
  "js_or (definite (referrer c)) ''Direct'' = ''Direct'' \<longleftrightarrow> empty_referrer c \<or> referrer c = Str ''Direct''"
  by (cases "referrer c") (auto simp: js_or_def empty_referrer_def)

lemma length_filter_disj:
  "(\<And>x. \<not> (P x \<and> Q x)) \<Longrightarrow> length (filter (\<lambda>x. P x \<or> Q x) xs) = length (filter P xs) + length (filter Q xs)"
  by (induction xs) auto

lemma inherited_names_simps:
  "set inherited_names = {''__proto__'', ''constructor'', ''__defineGetter__'', ''__defineSetter__'',
     ''hasOwnProperty'', ''__lookupGetter__'', ''__lookupSetter__'', ''isPrototypeOf'',
     ''propertyIsEnumerable'', ''toString'', ''valueOf'', ''toLocaleString''}"
  by (simp add: inherited_names_def Object_prototype_functions_def)

section \<open>The statistics: the claims\<close>

text \<open>
  C5 (as amended).  In \<open>referrerBreakdown\<close> the key \<^verbatim>\<open>"Direct"\<close> counts the events with an
  empty or absent referrer together with the events whose stored referrer is the
  literal string \<^verbatim>\<open>"Direct"\<close> (what the click recorder stores when the request has no
  \<^verbatim>\<open>Referer\<close> header), and the key is absent when there is no such event.  The events with
  an empty referrer and those with a non-empty one add up to \<open>totalClicks\<close>; and when no
  referrer is a property name a plain object inherits, every value of the breakdown is
  a count and the values add up to that total.
\<close>

theorem C5_referrer_breakdown:
  "map_of (referrerBreakdown (aggregate cs)) ''Direct'' =
     (if length (filter empty_referrer cs) + length (filter (\<lambda>c. referrer c = Str ''Direct'') cs) = 0
      then None
      else Some (JNum (length (filter empty_referrer cs)
                       + length (filter (\<lambda>c. referrer c = Str ''Direct'') cs)))) \<and>
   length (filter empty_referrer cs) + length (filter (\<lambda>c. \<not> empty_referrer c) cs)
     = totalClicks (aggregate cs) \<and>
   ((\<forall>c\<in>set cs. js_or (definite (referrer c)) ''Direct'' \<notin> set inherited_names) \<longrightarrow>
      sum_values (referrerBreakdown (aggregate cs))
        = Some (length (filter empty_referrer cs) + length (filter (\<lambda>c. \<not> empty_referrer c) cs)))"
proof -
  let ?N = "length (filter empty_referrer cs)"
  let ?D = "length (filter (\<lambda>c. referrer c = Str ''Direct'') cs)"
  let ?M = "length (filter (\<lambda>c. \<not> empty_referrer c) cs)"
  have cnt: "count_list (map (\<lambda>c. js_or (definite (referrer c)) ''Direct'') cs) ''Direct'' = ?N + ?D"
  proof -
    have "count_list (map (\<lambda>c. js_or (definite (referrer c)) ''Direct'') cs) ''Direct''
            = length (filter (\<lambda>c. empty_referrer c \<or> referrer c = Str ''Direct'') cs)"
      by (simp add: count_list_map_filter direct_key_iff)
    also have "\<dots> = ?N + ?D"
      by (rule length_filter_disj) (auto simp: empty_referrer_def)
    finally show ?thesis .
  qed
  have direct: "map_of (referrerBreakdown (aggregate cs)) ''Direct'' =
                  (if ?N + ?D = 0 then None else Some (JNum (?N + ?D)))"
    using after_plain [OF Direct_plain, of "?N + ?D"]
    by (simp add: aggregate_def map_of_foldl_count_key cnt)
  have total: "?N + ?M = totalClicks (aggregate cs)"
    using sum_length_filter_compl [of empty_referrer cs] by (simp add: aggregate_def)
  have sum: "sum_values (referrerBreakdown (aggregate cs)) = Some (?N + ?M)"
    if "\<forall>c\<in>set cs. js_or (definite (referrer c)) ''Direct'' \<notin> set inherited_names"
    using sum_values_foldl [of "[]" 0 cs "\<lambda>c. js_or (definite (referrer c)) ''Direct''"] that total
    by (simp add: aggregate_def)
  show ?thesis
  proof (intro conjI impI)
    show "map_of (referrerBreakdown (aggregate cs)) ''Direct'' =
                  (if ?N + ?D = 0 then None else Some (JNum (?N + ?D)))"
      by (rule direct)
    show "?N + ?M = totalClicks (aggregate cs)"
      by (rule total)
    show "sum_values (referrerBreakdown (aggregate cs)) = Some (?N + ?M)"
      if "\<forall>c\<in>set cs. js_or (definite (referrer c)) ''Direct'' \<notin> set inherited_names"
      using that by (rule sum)
  qed
qed

theorem C5_referrer_breakdown_witness:
  "js_or (definite (referrer (sample_click 1 Absent))) ''Direct'' \<notin> set inherited_names \<and>
   js_or (definite (referrer (sample_click 2 (Str ''https://a.example/'')))) ''Direct'' \<notin> set inherited_names \<and>
   js_or (definite (referrer (sample_click 3 (Str ''Direct'')))) ''Direct'' \<notin> set inherited_names \<and>
   map_of (referrerBreakdown (aggregate
      [sample_click 1 Absent, sample_click 2 (Str ''https://a.example/''), sample_click 3 (Str ''Direct'')]))
      ''Direct'' = Some (JNum 2) \<and>
   sum_values (referrerBreakdown (aggregate
      [sample_click 1 Absent, sample_click 2 (Str ''https://a.example/''), sample_click 3 (Str ''Direct'')]))
      = Some 3 \<and>
   totalClicks (aggregate
      [sample_click 1 Absent, sample_click 2 (Str ''https://a.example/''), sample_click 3 (Str ''Direct'')]) = 3"
  using C5_referrer_breakdown
    [of "[sample_click 1 Absent, sample_click 2 (Str ''https://a.example/''), sample_click 3 (Str ''Direct'')]"]
  by (simp add: sample_click_def js_or_def empty_referrer_def inherited_names_simps)

text \<open>
  C5 as stated fails: one event whose referrer is the string \<^verbatim>\<open>"Direct"\<close> has a non-empty
  referrer, so \<open>N = 0\<close>, yet \<^verbatim>\<open>"Direct"\<close> is mapped to 1; and an event whose referrer is
  \<^verbatim>\<open>"__proto__"\<close> is counted in \<open>totalClicks\<close> but leaves no entry in the breakdown.
\<close>

theorem C5_counterexample:
  "\<not> (map_of (referrerBreakdown (aggregate [sample_click 1 (Str ''Direct'')])) ''Direct''
        = Some (JNum (length (filter empty_referrer [sample_click 1 (Str ''Direct'')])))) \<and>
   \<not> (sum_values (referrerBreakdown (aggregate [sample_click 1 (Str ''__proto__'')]))
        = Some (totalClicks (aggregate [sample_click 1 (Str ''__proto__'')])))"
  by (simp add: sample_click_def aggregate_def count_key_def js_assign_def js_read_def
        or_zero_plus_one_def js_or_def Object_prototype_functions_def empty_referrer_def)

text \<open>
  C6.  \<open>uniqueCountries\<close>, \<open>uniqueDevices\<close> and \<open>uniqueBrowsers\<close> are the numbers of distinct
  raw values of \<open>country\<close>, \<open>device\<close> and \<open>browser\<close> over the events (a missing
  country and a \<^verbatim>\<open>null\<close> country are values of their own, nothing is defaulted first),
  and the value \<^verbatim>\<open>"Unknown"\<close> adds exactly one to a count when it occurs.
\<close>

theorem C6_unique_counts:
  "uniqueCountries (aggregate cs) = card (country ` set cs) \<and>
   uniqueDevices (aggregate cs) = card (device ` set cs) \<and>
   uniqueBrowsers (aggregate cs) = card (browser ` set cs) \<and>
   uniqueCountries (aggregate cs) =
     card (country ` set cs - {Str ''Unknown''}) + (if Str ''Unknown'' \<in> country ` set cs then 1 else 0) \<and>
   uniqueDevices (aggregate cs) =
     card (device ` set cs - {''Unknown''}) + (if ''Unknown'' \<in> device ` set cs then 1 else 0) \<and>
   uniqueBrowsers (aggregate cs) =
     card (browser ` set cs - {''Unknown''}) + (if ''Unknown'' \<in> browser ` set cs then 1 else 0)"
proof -
  have c: "uniqueCountries (aggregate cs) = card (country ` set cs)"
    by (simp add: aggregate_def Set_size_card)
  have d: "uniqueDevices (aggregate cs) = card (device ` set cs)"
    by (simp add: aggregate_def Set_size_card)
  have b: "uniqueBrowsers (aggregate cs) = card (browser ` set cs)"
    by (simp add: aggregate_def Set_size_card)
  have c': "card (country ` set cs) =
     card (country ` set cs - {Str ''Unknown''}) + (if Str ''Unknown'' \<in> country ` set cs then 1 else 0)"
    by (rule card_split_one) simp
  have d': "card (device ` set cs) =
     card (device ` set cs - {''Unknown''}) + (if ''Unknown'' \<in> device ` set cs then 1 else 0)"
    by (rule card_split_one) simp
  have b': "card (browser ` set cs) =
     card (browser ` set cs - {''Unknown''}) + (if ''Unknown'' \<in> browser ` set cs then 1 else 0)"
    by (rule card_split_one) simp
  from c d b c' d' b' show ?thesis by (simp only:)
qed

text \<open>
  An instance: five events whose countries are missing, \<^verbatim>\<open>null\<close>, empty, and twice
  \<^verbatim>\<open>"Unknown"\<close> have four distinct raw countries, while \<open>countryBreakdown\<close> (which
  defaults first) has the single key \<^verbatim>\<open>"Unknown"\<close> with count 5.
\<close>

lemma unique_countries_raw_example:
  "uniqueCountries (aggregate (map (\<lambda>c. (sample_click 1 Absent)\<lparr>country := c\<rparr>)
      [Absent, Null, Str [], Str ''Unknown'', Str ''Unknown''])) = 4 \<and>
   countryBreakdown (aggregate (map (\<lambda>c. (sample_click 1 Absent)\<lparr>country := c\<rparr>)
      [Absent, Null, Str [], Str ''Unknown'', Str ''Unknown''])) = [(''Unknown'', JNum 5)]"
  by (simp add: aggregate_def Set_size_def Set_add_def sample_click_def count_key_def
      js_assign_def js_read_def or_zero_plus_one_def js_or_def Object_prototype_functions_def)

text \<open>
  C7.  The statistics of a list of click events and of any permutation of it agree:
  the same \<open>totalClicks\<close>, the same three unique counts, and in each of the seven
  breakdowns the same set of key-value pairs.
\<close>

theorem C7_permutation_invariant:
  assumes "mset xs = mset ys"
  shows "totalClicks (aggregate xs) = totalClicks (aggregate ys) \<and>
         uniqueCountries (aggregate xs) = uniqueCountries (aggregate ys) \<and>
         uniqueDevices (aggregate xs) = uniqueDevices (aggregate ys) \<and>
         uniqueBrowsers (aggregate xs) = uniqueBrowsers (aggregate ys) \<and>
         set (referrerBreakdown (aggregate xs)) = set (referrerBreakdown (aggregate ys)) \<and>
         set (countryBreakdown (aggregate xs)) = set (countryBreakdown (aggregate ys)) \<and>
         set (deviceBreakdown (aggregate xs)) = set (deviceBreakdown (aggregate ys)) \<and>
         set (browserBreakdown (aggregate xs)) = set (browserBreakdown (aggregate ys)) \<and>
         set (utmBreakdown_source (aggregate xs)) = set (utmBreakdown_source (aggregate ys)) \<and>
         set (utmBreakdown_medium (aggregate xs)) = set (utmBreakdown_medium (aggregate ys)) \<and>
         set (utmBreakdown_campaign (aggregate xs)) = set (utmBreakdown_campaign (aggregate ys))"
proof -
  have len: "length xs = length ys"
    using assms by (rule mset_eq_length)
  show ?thesis
    unfolding aggregate_def
    by (simp add: len Set_size_perm [OF assms] breakdown_perm [OF assms])
qed

theorem C7_permutation_invariant_witness:
  "mset [sample_click 1 Absent, sample_click 2 (Str ''https://a.example/'')]
     = mset [sample_click 2 (Str ''https://a.example/''), sample_click 1 Absent] \<and>
   referrerBreakdown (aggregate [sample_click 1 Absent, sample_click 2 (Str ''https://a.example/'')])
     = [(''Direct'', JNum 1), (''https://a.example/'', JNum 1)] \<and>
   referrerBreakdown (aggregate [sample_click 2 (Str ''https://a.example/''), sample_click 1 Absent])
     = [(''https://a.example/'', JNum 1), (''Direct'', JNum 1)] \<and>
   set (referrerBreakdown (aggregate [sample_click 1 Absent, sample_click 2 (Str ''https://a.example/'')]))
     = set (referrerBreakdown (aggregate [sample_click 2 (Str ''https://a.example/''), sample_click 1 Absent]))"
proof -
  have p: "mset [sample_click 1 Absent, sample_click 2 (Str ''https://a.example/'')]
     = mset [sample_click 2 (Str ''https://a.example/''), sample_click 1 Absent]"
    by (simp add: add_mset_commute)
  have a: "referrerBreakdown (aggregate [sample_click 1 Absent, sample_click 2 (Str ''https://a.example/'')])
     = [(''Direct'', JNum 1), (''https://a.example/'', JNum 1)]"
    by (simp add: sample_click_def aggregate_def count_key_def js_assign_def js_read_def
        or_zero_plus_one_def js_or_def Object_prototype_functions_def)
  have b: "referrerBreakdown (aggregate [sample_click 2 (Str ''https://a.example/''), sample_click 1 Absent])
     = [(''https://a.example/'', JNum 1), (''Direct'', JNum 1)]"
    by (simp add: sample_click_def aggregate_def count_key_def js_assign_def js_read_def
        or_zero_plus_one_def js_or_def Object_prototype_functions_def)
  from C7_permutation_invariant [OF p] p a b show ?thesis by (simp only:) 
qed

section \<open>The redirect routes and the click recorder: the claims\<close>

lemmas recorder_defs =
  track_detached_def trackClickEvent_def trackClickEvent_try_def client_ip_def resolve_geo_def
  device_info_def browser_info_def os_info_def utm_param_def referer_or_direct_def
  ClickEvent_create_def validated_def invalid_paths_def required_string_def js_or_def
  truthy_def of_undefined_def json_of_undefined_def optional_string_def
  js_trim_def js_whitespace_def Let_def

lemmas redirect_defs =
  redirect_domain_slug_def redirect_slug_def Link_findOne_def default_projection_def
  expired_def password_rejected_def

lemmas sample_defs =
  quiet_env_def broken_env_def plain_request_def password_request_def sample_link_def
  store_of_def expired_protected_link_def protected_link_def six_clicks_store_def
  sample_click_def

lemma js_or_nonempty: "d \<noteq> [] \<Longrightarrow> js_or x d \<noteq> []"
  by (simp add: js_or_def split: option.splits)

lemma client_ip_nonempty: "client_ip req \<noteq> []"
  by (simp add: client_ip_def js_or_nonempty)

lemma findOne_projection:
  "Link_findOne env st cond = Inr (Some link) \<Longrightarrow> password link = None"
  by (auto simp: Link_findOne_def default_projection_def split: option.splits)

text \<open>
  C1.  With the database answering, a stored link that the route's lookup selects and
  whose \<open>expiresAt\<close> is set and earlier than the instant of the request makes both
  redirect routes fail with
  \<^verbatim>\<open>AppError("Link has expired", 410)\<close>, whatever the request's query (password or not)
  and whether or not the link is password protected; no click event is recorded.  The
  expiry test stands before the password test.
\<close>

theorem C1_expired_before_password:
  assumes "read_fault env = None" and "expiresAt link = Some e" and "e < now"
  shows "(find (\<lambda>l. domain l = d \<and> slug l = s) (links st) = Some link \<longrightarrow>
            redirect_domain_slug env now later st req d s
              = (Next (AppError ''Link has expired'' 410), st)) \<and>
         (find (\<lambda>l. slug l = s) (links st) = Some link \<longrightarrow>
            redirect_slug env now later st req s
              = (Next (AppError ''Link has expired'' 410), st))"
  using assms
  by (simp add: redirect_domain_slug_def redirect_slug_def Link_findOne_def
      default_projection_def expired_def)

theorem C1_expired_before_password_witness:
  "read_fault quiet_env = None \<and>
   find (\<lambda>l. domain l = ''xpro.li'' \<and> slug l = ''abc'') (links (store_of expired_protected_link))
     = Some expired_protected_link \<and>
   find (\<lambda>l. slug l = ''abc'') (links (store_of expired_protected_link))
     = Some expired_protected_link \<and>
   passwordProtected expired_protected_link \<and>
   query plain_request ''password'' = None \<and>
   expiresAt expired_protected_link = Some 49 \<and> (49 :: int) < 50 \<and>
   redirect_domain_slug quiet_env 50 51 (store_of expired_protected_link) plain_request ''xpro.li'' ''abc''
     = (Next (AppError ''Link has expired'' 410), store_of expired_protected_link) \<and>
   redirect_slug quiet_env 50 51 (store_of expired_protected_link) plain_request ''abc''
     = (Next (AppError ''Link has expired'' 410), store_of expired_protected_link)"
proof -
  have r: "read_fault quiet_env = None"
    by (simp add: quiet_env_def)
  have x: "expiresAt expired_protected_link = Some 49" and lt: "(49 :: int) < 50"
    by (simp_all add: expired_protected_link_def sample_link_def)
  have a: "find (\<lambda>l. domain l = ''xpro.li'' \<and> slug l = ''abc'') (links (store_of expired_protected_link))
     = Some expired_protected_link"
    and b: "find (\<lambda>l. slug l = ''abc'') (links (store_of expired_protected_link))
     = Some expired_protected_link"
    and c: "passwordProtected expired_protected_link"
    and q: "query plain_request ''password'' = None"
    by (simp_all add: store_of_def expired_protected_link_def sample_link_def plain_request_def)
  from C1_expired_before_password [OF r x lt, of "''xpro.li''" "''abc''"
      "store_of expired_protected_link" 51 plain_request] r x lt a b c q
  show ?thesis
    by (simp only: simp_thms)
qed

text \<open>
  C10.  The expiry test is strict: for a stored link that the route's lookup selects
  (the database answering), either redirect route answers with the Expired error exactly when \<open>expiresAt\<close> is set and strictly earlier than
  the instant of the test.  A link whose \<open>expiresAt\<close> equals that instant, or lies after
  it, is not stopped by the expiry branch.
\<close>

theorem C10_strict_expiry:
  assumes "read_fault env = None"
  shows "(find (\<lambda>l. domain l = d \<and> slug l = s) (links st) = Some link \<longrightarrow>
            (fst (redirect_domain_slug env now later st req d s) = Next (AppError ''Link has expired'' 410))
              = (\<exists>e. expiresAt link = Some e \<and> e < now)) \<and>
         (find (\<lambda>l. slug l = s) (links st) = Some link \<longrightarrow>
            (fst (redirect_slug env now later st req s) = Next (AppError ''Link has expired'' 410))
              = (\<exists>e. expiresAt link = Some e \<and> e < now))"
  using assms
  by (auto simp: redirect_domain_slug_def redirect_slug_def Link_findOne_def
      default_projection_def expired_def split: option.splits)

theorem C10_strict_expiry_witness:
  "read_fault quiet_env = None \<and>
   find (\<lambda>l. domain l = ''xpro.li'' \<and> slug l = ''abc'') (links (store_of (sample_link\<lparr>expiresAt := Some 50\<rparr>)))
     = Some (sample_link\<lparr>expiresAt := Some 50\<rparr>) \<and>
   find (\<lambda>l. slug l = ''abc'') (links (store_of (sample_link\<lparr>expiresAt := Some 50\<rparr>)))
     = Some (sample_link\<lparr>expiresAt := Some 50\<rparr>) \<and>
   fst (redirect_domain_slug quiet_env 50 51 (store_of (sample_link\<lparr>expiresAt := Some 50\<rparr>)) plain_request ''xpro.li'' ''abc'')
     \<noteq> Next (AppError ''Link has expired'' 410) \<and>
   fst (redirect_slug quiet_env 50 51 (store_of (sample_link\<lparr>expiresAt := Some 50\<rparr>)) plain_request ''abc'')
     \<noteq> Next (AppError ''Link has expired'' 410) \<and>
   fst (redirect_slug quiet_env 51 52 (store_of (sample_link\<lparr>expiresAt := Some 50\<rparr>)) plain_request ''abc'')
     = Next (AppError ''Link has expired'' 410)"
proof -
  have r: "read_fault quiet_env = None"
    by (simp add: quiet_env_def)
  have a: "find (\<lambda>l. domain l = ''xpro.li'' \<and> slug l = ''abc'') (links (store_of (sample_link\<lparr>expiresAt := Some 50\<rparr>)))
     = Some (sample_link\<lparr>expiresAt := Some 50\<rparr>)"
    and b: "find (\<lambda>l. slug l = ''abc'') (links (store_of (sample_link\<lparr>expiresAt := Some 50\<rparr>)))
     = Some (sample_link\<lparr>expiresAt := Some 50\<rparr>)"
    by (simp_all add: store_of_def sample_link_def)
  show ?thesis
    using r a b
      C10_strict_expiry [OF r, of "''xpro.li''" "''abc''" "store_of (sample_link\<lparr>expiresAt := Some 50\<rparr>)"
        "sample_link\<lparr>expiresAt := Some 50\<rparr>" 50 51 plain_request]
      C10_strict_expiry [OF r, of "''xpro.li''" "''abc''" "store_of (sample_link\<lparr>expiresAt := Some 50\<rparr>)"
        "sample_link\<lparr>expiresAt := Some 50\<rparr>" 51 52 plain_request]
    by simp
qed

text \<open>
  The password check as the code runs it.  The schema of \<open>Link\<close> declares
  \<^verbatim>\<open>password: { type: String, select: false }\<close> and the redirect routes call
  \<^verbatim>\<open>Link.findOne\<close> without \<^verbatim>\<open>.select('+password')\<close>, so the document they test has no
  \<open>password\<close>; a non-empty \<^verbatim>\<open>req.query.password\<close> is then never \<^verbatim>\<open>===\<close> to it.  Every
  request for a protected, unexpired link is answered 401 and records nothing.
\<close>

lemma protected_link_always_rejected:
  assumes "read_fault env = None" and "passwordProtected link" and "\<not> expired link now"
  shows "(find (\<lambda>l. domain l = d \<and> slug l = s) (links st) = Some link \<longrightarrow>
            redirect_domain_slug env now later st req d s
              = (JsonMessage 401 ''error'' ''Password required'', st)) \<and>
         (find (\<lambda>l. slug l = s) (links st) = Some link \<longrightarrow>
            redirect_slug env now later st req s
              = (JsonMessage 401 ''error'' ''Password required'', st))"
  using assms
  by (auto simp: redirect_domain_slug_def redirect_slug_def Link_findOne_def
      default_projection_def expired_def password_rejected_def split: option.splits qval.splits)

text \<open>
  C2 (the code at the failing input).  The stored link is password protected, not
  expired, and its password is \<^verbatim>\<open>"s3cret"\<close>; the request carries \<^verbatim>\<open>?password=s3cret\<close>.  The
  claim promises a redirect and one click event.  Both routes answer
  \<^verbatim>\<open>401 {status: "error", message: "Password required"}\<close> and leave the store as it was.
\<close>

theorem C2_matching_password_rejected:
  "password protected_link = Some ''s3cret'' \<and>
   query (password_request ''s3cret'') ''password'' = Some (QString ''s3cret'') \<and>
   redirect_domain_slug quiet_env 50 51 (store_of protected_link) (password_request ''s3cret'') ''xpro.li'' ''abc''
     = (JsonMessage 401 ''error'' ''Password required'', store_of protected_link) \<and>
   redirect_slug quiet_env 50 51 (store_of protected_link) (password_request ''s3cret'') ''abc''
     = (JsonMessage 401 ''error'' ''Password required'', store_of protected_link)"
  by (simp add: redirect_defs sample_defs)

text \<open>
  C3.  \<^verbatim>\<open>trackClickEvent\<close> returns to its caller for every environment, store, request
  and link: it never fails.  Whenever a step inside its \<^verbatim>\<open>try\<close> block fails (the geo
  lookup, the user-agent parser, the validation or the write of the click event), the
  result is \<^verbatim>\<open>null\<close> and the store is unchanged.  The response of either redirect route
  does not depend on the recorder's collaborators or on when the recorder runs.
\<close>

theorem C3_recorder_never_raises:
  "(\<exists>r st'. trackClickEvent env now st req link = Inr (r, st')) \<and>
   (\<forall>e. trackClickEvent_try env now st req link = Inl e \<longrightarrow>
        trackClickEvent env now st req link = Inr (None, st)) \<and>
   fst (redirect_domain_slug (env\<lparr>geoip_lookup := g, ua_parse := u, write_fault := w\<rparr>) now later' st req d s)
     = fst (redirect_domain_slug env now later st req d s) \<and>
   fst (redirect_slug (env\<lparr>geoip_lookup := g, ua_parse := u, write_fault := w\<rparr>) now later' st req s)
     = fst (redirect_slug env now later st req s)"
proof (intro conjI allI impI)
  show "\<exists>r st'. trackClickEvent env now st req link = Inr (r, st')"
    by (cases "trackClickEvent_try env now st req link") (auto simp: trackClickEvent_def)
  show "trackClickEvent env now st req link = Inr (None, st)"
    if "trackClickEvent_try env now st req link = Inl e" for e
    using that by (simp add: trackClickEvent_def)
  show "fst (redirect_domain_slug (env\<lparr>geoip_lookup := g, ua_parse := u, write_fault := w\<rparr>) now later' st req d s)
     = fst (redirect_domain_slug env now later st req d s)"
    by (simp add: redirect_domain_slug_def Link_findOne_def split: option.splits)
  show "fst (redirect_slug (env\<lparr>geoip_lookup := g, ua_parse := u, write_fault := w\<rparr>) now later' st req s)
     = fst (redirect_slug env now later st req s)"
    by (simp add: redirect_slug_def Link_findOne_def split: option.splits)
qed

theorem C3_recorder_never_raises_witness:
  "trackClickEvent_try broken_env 51 (store_of sample_link) plain_request sample_link
     = Inl (LibraryError ''geoip'') \<and>
   trackClickEvent broken_env 51 (store_of sample_link) plain_request sample_link
     = Inr (None, store_of sample_link) \<and>
   redirect_slug broken_env 50 51 (store_of sample_link) plain_request ''abc''
     = (Redirect ''https://example.org/'', store_of sample_link)"
proof -
  have a: "trackClickEvent_try broken_env 51 (store_of sample_link) plain_request sample_link
     = Inl (LibraryError ''geoip'')"
    by (simp add: recorder_defs sample_defs)
  have b: "redirect_slug broken_env 50 51 (store_of sample_link) plain_request ''abc''
     = (Redirect ''https://example.org/'', store_of sample_link)"
    by (simp add: redirect_defs recorder_defs sample_defs)
  show ?thesis
    using a b
      C3_recorder_never_raises [where env = broken_env and now = 51 and st = "store_of sample_link"
        and req = plain_request and link = sample_link]
    by simp
qed

text \<open>
  C8.  For every request, when the resolved client address is \<^verbatim>\<open>"::1"\<close> or starts with
  \<^verbatim>\<open>"127.0.0.1"\<close>, the geo fields are exactly Local / Development / Local and
  \<^verbatim>\<open>geoip.lookup\<close> is not called.  For every other address the lookup is called once with
  that address; when it finds nothing all three fields are \<^verbatim>\<open>"Unknown"\<close>, and when it
  returns a record every field it leaves absent or empty is \<^verbatim>\<open>"Unknown"\<close> and every other
  field is the lookup's value.
\<close>

theorem C8_geo_resolution:
  "(client_ip req = ''::1'' \<or> prefix ''127.0.0.1'' (client_ip req) \<longrightarrow>
      resolve_geo env (client_ip req)
        = ([], Inr \<lparr> geo_country = ''Local'', geo_city = ''Development'', geo_region = ''Local'' \<rparr>)) \<and>
   (client_ip req \<noteq> ''::1'' \<and> \<not> prefix ''127.0.0.1'' (client_ip req) \<longrightarrow>
      fst (resolve_geo env (client_ip req)) = [client_ip req] \<and>
      (geoip_lookup env (client_ip req) = Inr None \<longrightarrow>
         snd (resolve_geo env (client_ip req))
           = Inr \<lparr> geo_country = ''Unknown'', geo_city = ''Unknown'', geo_region = ''Unknown'' \<rparr>) \<and>
      (\<forall>g. geoip_lookup env (client_ip req) = Inr (Some g) \<longrightarrow>
         (\<exists>r. snd (resolve_geo env (client_ip req)) = Inr r \<and>
            (lookup_country g = None \<or> lookup_country g = Some [] \<longrightarrow> geo_country r = ''Unknown'') \<and>
            (lookup_city g = None \<or> lookup_city g = Some [] \<longrightarrow> geo_city r = ''Unknown'') \<and>
            (lookup_region g = None \<or> lookup_region g = Some [] \<longrightarrow> geo_region r = ''Unknown'') \<and>
            (\<forall>c. lookup_country g = Some c \<and> c \<noteq> [] \<longrightarrow> geo_country r = c) \<and>
            (\<forall>c. lookup_city g = Some c \<and> c \<noteq> [] \<longrightarrow> geo_city r = c) \<and>
            (\<forall>c. lookup_region g = Some c \<and> c \<noteq> [] \<longrightarrow> geo_region r = c))))"
proof (intro conjI impI allI)
  assume "client_ip req = ''::1'' \<or> prefix ''127.0.0.1'' (client_ip req)"
  then show "resolve_geo env (client_ip req)
        = ([], Inr \<lparr> geo_country = ''Local'', geo_city = ''Development'', geo_region = ''Local'' \<rparr>)"
    by (auto simp: resolve_geo_def)
next
  assume far: "client_ip req \<noteq> ''::1'' \<and> \<not> prefix ''127.0.0.1'' (client_ip req)"
  with client_ip_nonempty [of req]
  show "fst (resolve_geo env (client_ip req)) = [client_ip req]"
    by (simp add: resolve_geo_def)
next
  assume far: "client_ip req \<noteq> ''::1'' \<and> \<not> prefix ''127.0.0.1'' (client_ip req)"
    and "geoip_lookup env (client_ip req) = Inr None"
  with client_ip_nonempty [of req]
  show "snd (resolve_geo env (client_ip req))
           = Inr \<lparr> geo_country = ''Unknown'', geo_city = ''Unknown'', geo_region = ''Unknown'' \<rparr>"
    by (simp add: resolve_geo_def)
next
  fix g
  assume far: "client_ip req \<noteq> ''::1'' \<and> \<not> prefix ''127.0.0.1'' (client_ip req)"
    and "geoip_lookup env (client_ip req) = Inr (Some g)"
  with client_ip_nonempty [of req]
  have "snd (resolve_geo env (client_ip req))
          = Inr \<lparr> geo_country = js_or (lookup_country g) ''Unknown'',
                  geo_city = js_or (lookup_city g) ''Unknown'',
                  geo_region = js_or (lookup_region g) ''Unknown'' \<rparr>"
    by (simp add: resolve_geo_def)
  then show "\<exists>r. snd (resolve_geo env (client_ip req)) = Inr r \<and>
            (lookup_country g = None \<or> lookup_country g = Some [] \<longrightarrow> geo_country r = ''Unknown'') \<and>
            (lookup_city g = None \<or> lookup_city g = Some [] \<longrightarrow> geo_city r = ''Unknown'') \<and>
            (lookup_region g = None \<or> lookup_region g = Some [] \<longrightarrow> geo_region r = ''Unknown'') \<and>
            (\<forall>c. lookup_country g = Some c \<and> c \<noteq> [] \<longrightarrow> geo_country r = c) \<and>
            (\<forall>c. lookup_city g = Some c \<and> c \<noteq> [] \<longrightarrow> geo_city r = c) \<and>
            (\<forall>c. lookup_region g = Some c \<and> c \<noteq> [] \<longrightarrow> geo_region r = c)"
    by (auto simp: js_or_def)
qed

theorem C8_geo_resolution_witness:
  "client_ip loopback_request = ''127.0.0.1'' \<and>
   resolve_geo geo_env (client_ip loopback_request)
     = ([], Inr \<lparr> geo_country = ''Local'', geo_city = ''Development'', geo_region = ''Local'' \<rparr>) \<and>
   client_ip forwarded_request = ''1.2.3.4'' \<and>
   geoip_lookup geo_env ''1.2.3.4''
     = Inr (Some \<lparr> lookup_country = Some ''US'', lookup_city = Some [], lookup_region = None \<rparr>) \<and>
   resolve_geo geo_env (client_ip forwarded_request)
     = ([''1.2.3.4''], Inr \<lparr> geo_country = ''US'', geo_city = ''Unknown'', geo_region = ''Unknown'' \<rparr>)"
proof -
  have a: "client_ip loopback_request = ''127.0.0.1''"
    by (simp add: client_ip_def js_or_def loopback_request_def plain_request_def)
  have b: "client_ip forwarded_request = ''1.2.3.4''"
    by (simp add: client_ip_def js_or_def js_trim_def js_whitespace_def forwarded_request_def
        plain_request_def)
  have c: "geoip_lookup geo_env ''1.2.3.4''
     = Inr (Some \<lparr> lookup_country = Some ''US'', lookup_city = Some [], lookup_region = None \<rparr>)"
    by (simp add: geo_env_def quiet_env_def)
  have d: "resolve_geo geo_env (client_ip forwarded_request)
     = ([''1.2.3.4''], Inr \<lparr> geo_country = ''US'', geo_city = ''Unknown'', geo_region = ''Unknown'' \<rparr>)"
    using C8_geo_resolution [of forwarded_request geo_env] b c
    by (auto simp: prod_eq_iff)
  show ?thesis
    using C8_geo_resolution [of loopback_request geo_env] a b c d by simp
qed

text \<open>
  A successful redirect with a healthy recorder (the link selected by the lookup is
  neither expired nor password protected): the response is the redirect to the
  link's destination and exactly one click event is appended, for that link, stamped
  with the recorder's instant and the resolved client address.
\<close>

lemma device_info_nonempty: "device_info r \<noteq> []"
  by (auto simp: device_info_def Let_def truthy_def js_or_def split: option.splits)

lemma browser_info_nonempty: "browser_info r \<noteq> []"
  by (auto simp: browser_info_def truthy_def js_or_def split: option.splits)

lemma os_info_nonempty: "os_info r \<noteq> []"
  by (auto simp: os_info_def truthy_def js_or_def split: option.splits)

lemma resolve_geo_succeeds:
  "geoip_lookup env a = Inr g \<Longrightarrow> \<exists>geo. snd (resolve_geo env a) = Inr geo"
  by (cases g) (simp_all add: resolve_geo_def)

lemma cast_json_of_undefined: "cast_string (json_of_undefined x) = Some (of_undefined x)"
  by (cases x) (simp_all add: json_of_undefined_def of_undefined_def)

lemma recorder_appends_one:
  assumes "write_fault env = None"
    and "geoip_lookup env (client_ip req) = Inr g"
    and "ua_parse env (js_or (headers req ''user-agent'') []) = Inr u"
  shows "\<exists>ev. track_detached env later st req link = st\<lparr>clickEvents := clickEvents st @ [ev]\<rparr> \<and>
              linkId ev = link_id link \<and> timestamp ev = later \<and> ip ev = client_ip req"
proof -
  from resolve_geo_succeeds [OF assms(2)] obtain geo
    where geo: "snd (resolve_geo env (client_ip req)) = Inr geo" by blast
  let ?ev = "\<lparr> linkId = link_id link, timestamp = later, ip = client_ip req,
               country = Str (geo_country geo), city = Str (geo_city geo),
               device = device_info u, browser = browser_info u, os = os_info u,
               referrer = Str (referer_or_direct req),
               utmSource = of_undefined (utm_param req ''source''),
               utmMedium = of_undefined (utm_param req ''medium''),
               utmCampaign = of_undefined (utm_param req ''campaign'') \<rparr>"
  have "track_detached env later st req link = st\<lparr>clickEvents := clickEvents st @ [?ev]\<rparr>"
    using assms(1,3) geo client_ip_nonempty [of req] device_info_nonempty [of u]
      browser_info_nonempty [of u] os_info_nonempty [of u]
    by (simp add: track_detached_def trackClickEvent_def trackClickEvent_try_def
        ClickEvent_create_def validated_def cast_json_of_undefined Let_def)
  then show ?thesis
    by (intro exI [of _ ?ev]) simp
qed

theorem redirect_records_one_click:
  assumes "read_fault env = None" and "\<not> expired link now" and "\<not> passwordProtected link"
    and "write_fault env = None"
    and "geoip_lookup env (client_ip req) = Inr g"
    and "ua_parse env (js_or (headers req ''user-agent'') []) = Inr u"
  shows "(find (\<lambda>l. domain l = d \<and> slug l = s) (links st) = Some link \<longrightarrow>
           (\<exists>ev. redirect_domain_slug env now later st req d s
                    = (Redirect (destinationUrl link), st\<lparr>clickEvents := clickEvents st @ [ev]\<rparr>) \<and>
                 linkId ev = link_id link \<and> timestamp ev = later \<and> ip ev = client_ip req)) \<and>
         (find (\<lambda>l. slug l = s) (links st) = Some link \<longrightarrow>
           (\<exists>ev. redirect_slug env now later st req s
                    = (Redirect (destinationUrl link), st\<lparr>clickEvents := clickEvents st @ [ev]\<rparr>) \<and>
                 linkId ev = link_id link \<and> timestamp ev = later \<and> ip ev = client_ip req))"
  using assms(1-3) recorder_appends_one [OF assms(4-6), of later st "default_projection link"]
  by (auto simp: redirect_domain_slug_def redirect_slug_def Link_findOne_def
      default_projection_def expired_def)

theorem redirect_records_one_click_witness:
  "read_fault quiet_env = None \<and>
   find (\<lambda>l. slug l = ''abc'') (links (store_of sample_link)) = Some sample_link \<and>
   \<not> expired sample_link 50 \<and> \<not> passwordProtected sample_link \<and> write_fault quiet_env = None \<and>
   geoip_lookup quiet_env (client_ip plain_request) = Inr None \<and>
   redirect_slug quiet_env 50 51 (store_of sample_link) plain_request ''abc''
     = (Redirect ''https://example.org/'',
        (store_of sample_link) \<lparr> clickEvents :=
           [\<lparr> linkId = 1, timestamp = 51, ip = ''203.0.113.9'', country = Str ''Unknown'',
              city = Str ''Unknown'', device = ''Desktop (Linux)'', browser = ''Firefox 120.0'',
              os = ''Linux '', referrer = Str ''Direct'', utmSource = Absent, utmMedium = Absent,
              utmCampaign = Absent \<rparr>] \<rparr>)"
proof -
  have r: "read_fault quiet_env = None"
    by (simp add: quiet_env_def)
  have f: "find (\<lambda>l. slug l = ''abc'') (links (store_of sample_link)) = Some sample_link"
    by (simp add: store_of_def sample_link_def)
  have e: "\<not> expired sample_link 50" and p: "\<not> passwordProtected sample_link"
    by (simp_all add: expired_def sample_link_def)
  have w: "write_fault quiet_env = None"
    and g: "geoip_lookup quiet_env (client_ip plain_request) = Inr None"
    and u: "ua_parse quiet_env (js_or (headers plain_request ''user-agent'') [])
              = Inr \<lparr> device_type = None, device_vendor = None, device_model = None,
                      browser_name = Some ''Firefox'', browser_version = Some ''120.0'',
                      os_name = Some ''Linux'', os_version = None \<rparr>"
    by (simp_all add: quiet_env_def)
  have v: "redirect_slug quiet_env 50 51 (store_of sample_link) plain_request ''abc''
     = (Redirect ''https://example.org/'',
        (store_of sample_link) \<lparr> clickEvents :=
           [\<lparr> linkId = 1, timestamp = 51, ip = ''203.0.113.9'', country = Str ''Unknown'',
              city = Str ''Unknown'', device = ''Desktop (Linux)'', browser = ''Firefox 120.0'',
              os = ''Linux '', referrer = Str ''Direct'', utmSource = Absent, utmMedium = Absent,
              utmCampaign = Absent \<rparr>] \<rparr>)"
    by (simp add: redirect_defs recorder_defs sample_defs)
  from redirect_records_one_click [OF r e p w g u, of d "''abc''" "store_of sample_link" 51]
    r f e p w g v show ?thesis
    by (simp only: simp_thms)
qed

section \<open>The analytics routes and the link listing: the claims\<close>

lemma find_link_id_None:
  "n \<notin> link_id ` set ls \<Longrightarrow> find (\<lambda>l. link_id l = n) ls = None"
  by (auto simp: find_None_iff)

lemma find_link_id_Some:
  "n \<in> link_id ` set ls \<Longrightarrow> \<exists>l. find (\<lambda>l. link_id l = n) ls = Some l"
  by (cases "find (\<lambda>l. link_id l = n) ls") (auto simp: find_None_iff)

text \<open>
  \<^verbatim>\<open>POST /clicks\<close> case by case, the database answering reads.  A missing \<open>linkId\<close> or one
  of no stored link: \<^verbatim>\<open>AppError("Link not found", 404)\<close>, nothing stored.  A \<open>linkId\<close> that
  does not cast to an id: the cast error, nothing stored.  An existing link and a body
  whose \<open>ip\<close>, \<open>device\<close>, \<open>browser\<close> and \<open>os\<close> are non-empty strings and whose other
  fields are castable (the write succeeding): status 201 with the created event, which is
  appended to the collection.
\<close>

lemma post_clicks_cases:
  assumes "read_fault env = None"
  shows
   "(b_linkId body = IdAbsent \<or> (\<exists>n. b_linkId body = IdOf n \<and> n \<notin> link_id ` set (links st)) \<longrightarrow>
       post_clicks env now st body = (Next (AppError ''Link not found'' 404), st)) \<and>
    (\<forall>v. b_linkId body = IdMalformed v \<longrightarrow>
       post_clicks env now st body = (Next (CastError v), st)) \<and>
    (\<forall>n i d b s co ci re us um uc.
       b_linkId body = IdOf n \<and> n \<in> link_id ` set (links st) \<and> write_fault env = None \<and>
       b_ip body = JString i \<and> i \<noteq> [] \<and> b_device body = JString d \<and> d \<noteq> [] \<and>
       b_browser body = JString b \<and> b \<noteq> [] \<and> b_os body = JString s \<and> s \<noteq> [] \<and>
       cast_string (b_country body) = Some co \<and> cast_string (b_city body) = Some ci \<and>
       cast_string (b_referrer body) = Some re \<and> cast_string (b_utmSource body) = Some us \<and>
       cast_string (b_utmMedium body) = Some um \<and> cast_string (b_utmCampaign body) = Some uc \<longrightarrow>
       post_clicks env now st body =
         (JsonClickEvent 201
            \<lparr> linkId = n, timestamp = now, ip = i, country = co, city = ci,
              device = d, browser = b, os = s, referrer = re,
              utmSource = us, utmMedium = um, utmCampaign = uc \<rparr>,
          st \<lparr> clickEvents := clickEvents st @
            [\<lparr> linkId = n, timestamp = now, ip = i, country = co, city = ci,
               device = d, browser = b, os = s, referrer = re,
               utmSource = us, utmMedium = um, utmCampaign = uc \<rparr>] \<rparr>))"
proof (intro conjI allI impI)
  assume "b_linkId body = IdAbsent \<or> (\<exists>n. b_linkId body = IdOf n \<and> n \<notin> link_id ` set (links st))"
  then show "post_clicks env now st body = (Next (AppError ''Link not found'' 404), st)"
    using assms
    by (auto simp: post_clicks_def Link_findById_def Link_findOne_by_id_def Link_findOne_def
        find_link_id_None)
next
  fix v
  assume "b_linkId body = IdMalformed v"
  then show "post_clicks env now st body = (Next (CastError v), st)"
    by (simp add: post_clicks_def Link_findById_def Link_findOne_by_id_def)
next
  fix n i d b s co ci re us um uc
  assume h: "b_linkId body = IdOf n \<and> n \<in> link_id ` set (links st) \<and> write_fault env = None \<and>
       b_ip body = JString i \<and> i \<noteq> [] \<and> b_device body = JString d \<and> d \<noteq> [] \<and>
       b_browser body = JString b \<and> b \<noteq> [] \<and> b_os body = JString s \<and> s \<noteq> [] \<and>
       cast_string (b_country body) = Some co \<and> cast_string (b_city body) = Some ci \<and>
       cast_string (b_referrer body) = Some re \<and> cast_string (b_utmSource body) = Some us \<and>
       cast_string (b_utmMedium body) = Some um \<and> cast_string (b_utmCampaign body) = Some uc"
  then obtain l where "find (\<lambda>l. link_id l = n) (links st) = Some l"
    using find_link_id_Some by blast
  with h assms
  show "post_clicks env now st body =
         (JsonClickEvent 201
            \<lparr> linkId = n, timestamp = now, ip = i, country = co, city = ci,
              device = d, browser = b, os = s, referrer = re,
              utmSource = us, utmMedium = um, utmCampaign = uc \<rparr>,
          st \<lparr> clickEvents := clickEvents st @
            [\<lparr> linkId = n, timestamp = now, ip = i, country = co, city = ci,
               device = d, browser = b, os = s, referrer = re,
               utmSource = us, utmMedium = um, utmCampaign = uc \<rparr>] \<rparr>)"
    by (simp add: post_clicks_def Link_findById_def Link_findOne_by_id_def Link_findOne_def
        ClickEvent_create_def validated_def)
qed

text \<open>
  Instances: a complete body for link 1 is answered 201; the same body with an object
  under \<open>country\<close> is refused by the String cast.
\<close>

lemma post_clicks_examples:
  "post_clicks quiet_env 10 (store_of sample_link) (full_body (IdOf 1))
     = (JsonClickEvent 201
          \<lparr> linkId = 1, timestamp = 10, ip = ''198.51.100.7'', country = Null, city = Absent,
            device = ''mobile'', browser = ''Safari'', os = ''iOS'', referrer = Absent,
            utmSource = Absent, utmMedium = Absent, utmCampaign = Absent \<rparr>,
        (store_of sample_link) \<lparr> clickEvents :=
          [\<lparr> linkId = 1, timestamp = 10, ip = ''198.51.100.7'', country = Null, city = Absent,
             device = ''mobile'', browser = ''Safari'', os = ''iOS'', referrer = Absent,
             utmSource = Absent, utmMedium = Absent, utmCampaign = Absent \<rparr>] \<rparr>) \<and>
   post_clicks quiet_env 10 (store_of sample_link) ((full_body (IdOf 1))\<lparr>b_country := JOther\<rparr>)
     = (Next (ValidationError [''country'']), store_of sample_link) \<and>
   post_clicks quiet_env 10 (store_of sample_link) (full_body (IdOf 2))
     = (Next (AppError ''Link not found'' 404), store_of sample_link)"
  by (simp add: post_clicks_def Link_findById_def Link_findOne_by_id_def Link_findOne_def
      ClickEvent_create_def validated_def invalid_paths_def required_string_def
      optional_string_def default_projection_def full_body_def bare_body_def store_of_def
      sample_link_def quiet_env_def)

text \<open>
  C9 (the code at the failing input).  Link 1 exists and the body carries only
  \<open>linkId\<close>, which is all the route's own API description requires.  The promise is a
  click event created from the body and status 201.  The handler passes the body to
  \<^verbatim>\<open>ClickEvent.create\<close>, whose schema requires \<open>ip\<close>, \<open>device\<close>, \<open>browser\<close> and \<open>os\<close>: the
  validation error goes to the error handler and nothing is created.  Likewise a
  \<open>linkId\<close> that is not an id identifies no link, yet the answer is the cast error of
  \<^verbatim>\<open>Link.findById\<close> and not the 404.
\<close>

theorem C9_linkId_only_body_rejected:
  "link_id ` set (links (store_of sample_link)) = {1} \<and>
   post_clicks quiet_env 10 (store_of sample_link) (bare_body (IdOf 1))
     = (Next (ValidationError [''ip'', ''device'', ''browser'', ''os'']), store_of sample_link) \<and>
   post_clicks quiet_env 10 (store_of sample_link) (bare_body (IdMalformed ''not-an-id''))
     = (Next (CastError ''not-an-id''), store_of sample_link)"
  by (simp add: post_clicks_def Link_findById_def Link_findOne_by_id_def Link_findOne_def
      ClickEvent_create_def validated_def invalid_paths_def required_string_def
      optional_string_def default_projection_def bare_body_def store_of_def sample_link_def
      quiet_env_def)







end
